theory Spec2Isabelle
  imports Complex_Main
begin

section \<open>The armor solver node: data model\<close>

text \<open>
  The development embeds \<^verbatim>\<open>rm_auto_aim/armor_solver/src/armor_solver_node.cpp\<close>:
  four of the model functions that the constructor hands to the extended Kalman filter
  (\<^verbatim>\<open>h\<close>, \<^verbatim>\<open>j_h\<close>, \<^verbatim>\<open>u_q\<close>, \<^verbatim>\<open>u_r\<close>) and the subscription callback
  \<^verbatim>\<open>armorsCallback\<close>.

  Numbers. A C++ \<^verbatim>\<open>double\<close> that the file computes with (filter state, noise
  densities) is a \<^typ>\<open>real\<close>. In the filter's model functions the arithmetic is the
  exact one: rounding and overflow of the IEEE format are not part of the model there.
  In the callback one rounded value is converted to an integer, the quotient
  \<^verbatim>\<open>lost_time_thres_ / dt_\<close>; there \<^verbatim>\<open>dt_\<close> and the quotient are rounded as binary64
  rounds them. The pose coordinates of an
  incoming armor are only compared, never computed with, and come from outside; they
  keep the non-finite values of the format (type \<open>double\<close> below).
  An \<^verbatim>\<open>Eigen::VectorXd\<close> is a \<^typ>\<open>real list\<close>, an \<^verbatim>\<open>Eigen::MatrixXd\<close> the list of
  its rows; a coefficient read beyond the size of a vector is a fault of the model.
\<close>

datatype fault =
    Index_Out_Of_Range      \<comment> \<open>coefficient access beyond the size of an Eigen vector\<close>
  | Undefined_Conversion    \<comment> \<open>floating value converted to \<^verbatim>\<open>int\<close> outside its range\<close>
  | Integer_Overflow        \<comment> \<open>\<^verbatim>\<open>std::abs\<close> of the least \<^verbatim>\<open>int\<close>\<close>

datatype double = Finite real | PosInf | NegInf | NaN

text \<open>\<^verbatim>\<open>abs\<close> on a double and the comparison \<^verbatim>\<open>a > b\<close>; every comparison with a NaN is false.\<close>

fun dabs :: "double \<Rightarrow> double" where
  "dabs (Finite v) = Finite \<bar>v\<bar>"
| "dabs PosInf = PosInf"
| "dabs NegInf = PosInf"
| "dabs NaN = NaN"

fun dgt :: "double \<Rightarrow> double \<Rightarrow> bool" where
  "dgt NaN _ = False"
| "dgt _ NaN = False"
| "dgt (Finite a) (Finite b) = (b < a)"
| "dgt PosInf PosInf = False"
| "dgt PosInf _ = True"
| "dgt NegInf _ = False"
| "dgt (Finite a) PosInf = False"
| "dgt (Finite a) NegInf = True"

fun dle :: "double \<Rightarrow> double \<Rightarrow> bool" where
  "dle NaN _ = False"
| "dle _ NaN = False"
| "dle (Finite a) (Finite b) = (a \<le> b)"
| "dle NegInf _ = True"
| "dle PosInf PosInf = True"
| "dle PosInf _ = False"
| "dle (Finite a) PosInf = True"
| "dle (Finite a) NegInf = False"

fun is_finite :: "double \<Rightarrow> bool" where
  "is_finite (Finite _) = True"
| "is_finite _ = False"

subsection \<open>Binary64 rounding\<close>

text \<open>
  A finite double is a real \<open>m * 2 ^ (e - 52)\<close> with an integer \<open>|m| < 2 ^ 53\<close> and
  \<open>-1022 \<le> e \<le> 1023\<close>. An operation on doubles yields the double nearest to the exact
  result, the one with the even significand when two are equally near, and an infinity
  when that is beyond the largest double.

  \<open>rne\<close> rounds a real to the nearest integer, ties to even. For \<open>v > 0\<close>, \<open>binade v\<close>
  is the \<open>e\<close> with \<open>2 ^ e \<le> v < 2 ^ (e + 1)\<close>, found by doubling or halving; the search
  stops after 1100 steps, beyond which the value is subnormal or overflows whatever its
  exponent. \<open>nearest v\<close> is the double nearest to \<open>v\<close>, with the exponent unbounded above,
  and \<open>to_double\<close> adds the overflow.
\<close>

definition nearest_even :: "int \<Rightarrow> real \<Rightarrow> int" where
  "nearest_even n v =
     (if v - of_int n < 1 / 2 then n
      else if 1 / 2 < v - of_int n then n + 1
      else if even n then n else n + 1)"

definition rne :: "real \<Rightarrow> int" where
  "rne v = nearest_even \<lfloor>v\<rfloor> v"

fun binade_from :: "nat \<Rightarrow> real \<Rightarrow> int" where
  "binade_from 0 v = 0"
| "binade_from (Suc k) v =
     (if v < 1 then binade_from k (2 * v) - 1
      else if 2 \<le> v then binade_from k (v / 2) + 1
      else 0)"

definition binade :: "real \<Rightarrow> int" where
  "binade v = binade_from 1100 v"

definition scale :: "real \<Rightarrow> int \<Rightarrow> real" where
  "scale v k = (if 0 \<le> k then v * 2 ^ nat k else v / 2 ^ nat (- k))"

definition round_at :: "int \<Rightarrow> real \<Rightarrow> real" where
  "round_at e a = scale (of_int (rne (scale a (52 - e)))) (e - 52)"

definition nearest :: "real \<Rightarrow> real" where
  "nearest v = (if v = 0 then 0 else sgn v * round_at (max (binade \<bar>v\<bar>) (- 1022)) \<bar>v\<bar>)"

definition overflow :: "real \<Rightarrow> double" where
  "overflow r = (if 2 ^ 1024 \<le> \<bar>r\<bar> then (if 0 < r then PosInf else NegInf) else Finite r)"

definition to_double :: "real \<Rightarrow> double" where
  "to_double v = overflow (nearest v)"

text \<open>
  The quotient \<^verbatim>\<open>a / b\<close> of two finite doubles. A quotient by zero is an infinity, or a
  NaN when the dividend is zero as well (the zero divisor that occurs in this file is
  the positive one). An operand that is no double stands for the double nearest to it,
  as a decimal literal of the source does.
\<close>

definition divide_doubles :: "real \<Rightarrow> real \<Rightarrow> double" where
  "divide_doubles x y =
     (if y = 0 then (if x = 0 then NaN else if 0 < x then PosInf else NegInf)
      else to_double (x / y))"

definition fdiv :: "real \<Rightarrow> real \<Rightarrow> double" where
  "fdiv a b = divide_doubles (nearest a) (nearest b)"

subsection \<open>The node's configuration and members\<close>

text \<open>
  A member the source writes with a trailing underscore (\<^verbatim>\<open>dt_\<close>, \<^verbatim>\<open>tracker_\<close>, ...)
  has the same name here without it.
\<close>

datatype State = LOST | DETECTING | TRACKING | TEMP_LOST

text \<open>
  \<^verbatim>\<open>tracked_armors_num\<close> is converted with \<^verbatim>\<open>static_cast<int>\<close>, so it is an
  enumeration. Modelled from the spec: the enumeration itself is declared in the
  tracker's header; its values are the plate counts 2, 3 and 4.
\<close>

datatype ArmorsNum = BALANCE_2 | OUTPOST_3 | NORMAL_4

fun armors_num_int :: "ArmorsNum \<Rightarrow> int" where
  "armors_num_int BALANCE_2 = 2"
| "armors_num_int OUTPOST_3 = 3"
| "armors_num_int NORMAL_4 = 4"

text \<open>
  The members of \<^verbatim>\<open>Tracker\<close> this file reads or writes. The field \<open>internals\<close>
  stands for everything else the tracker owns (the filter's state and covariance, its
  counters, the last yaw), which this file never touches.
\<close>

record 'i Tracker =
  tracker_state :: State
  tracked_id :: string
  tracked_armors_num :: ArmorsNum
  target_state :: "real list"
  measurement :: "real list"
  another_r :: real
  dz :: real
  tracking_thres :: int
  lost_thres :: int
  internals :: 'i

record ('i, 's) ArmorSolverNode =
  debug_mode :: bool
  tracker :: "'i Tracker"
  lost_time_thres :: real
  dt :: real
  s2qx :: real
  s2qy :: real
  s2qz :: real
  s2qyaw :: real
  s2qr :: real
  r_x :: real
  r_y :: real
  r_z :: real
  r_yaw :: real
  target_frame :: string
  last_time :: int      \<comment> \<open>an \<^verbatim>\<open>rclcpp::Time\<close>, in nanoseconds\<close>
  solver :: "'s option" \<comment> \<open>\<^verbatim>\<open>nullptr\<close> until the first callback\<close>

section \<open>The filter's model functions\<close>

text \<open>
  The observation function \<^verbatim>\<open>h\<close> reads the coefficients 0, 2, 4, 6 and 8 of the state,
  its Jacobian \<^verbatim>\<open>j_h\<close> the coefficients 6 and 8.
\<close>

definition h :: "real list \<Rightarrow> fault + real list" where
  "h x =
     (if length x \<le> 8 then Inl Index_Out_Of_Range
      else let xc = x ! 0; yc = x ! 2; yaw = x ! 6; r = x ! 8
           in Inr [xc - r * cos yaw, yc - r * sin yaw, x ! 4, x ! 6])"

definition j_h :: "real list \<Rightarrow> fault + real list list" where
  "j_h x =
     (if length x \<le> 8 then Inl Index_Out_Of_Range
      else let yaw = x ! 6; r = x ! 8
           in Inr [[1, 0, 0, 0, 0, 0, r * sin yaw, 0, - cos yaw],
                   [0, 0, 1, 0, 0, 0, - r * cos yaw, 0, - sin yaw],
                   [0, 0, 0, 0, 1, 0, 0, 0, 0],
                   [0, 0, 0, 0, 0, 0, 1, 0, 0]])"

text \<open>The process noise provider \<^verbatim>\<open>u_q\<close>; \<^verbatim>\<open>pow(t, n)\<close> is \<open>t ^ n\<close>.\<close>

definition u_q :: "('i, 's) ArmorSolverNode \<Rightarrow> real list list" where
  "u_q node =
     (let t = dt node; x = s2qx node; y = s2qy node; z = s2qz node;
          yaw = s2qyaw node; r = s2qr node;
          q_x_x = t ^ 4 / 4 * x; q_x_vx = t ^ 3 / 2 * x; q_vx_vx = t ^ 2 * x;
          q_y_y = t ^ 4 / 4 * y; q_y_vy = t ^ 3 / 2 * y; q_vy_vy = t ^ 2 * y;
          q_z_z = t ^ 4 / 4 * x; q_z_vz = t ^ 3 / 2 * x; q_vz_vz = t ^ 2 * z;
          q_yaw_yaw = t ^ 4 / 4 * yaw; q_yaw_vyaw = t ^ 3 / 2 * x;
          q_vyaw_vyaw = t ^ 2 * yaw;
          q_r = t ^ 4 / 4 * r
      in [[q_x_x,  q_x_vx,  0,     0,       0,      0,       0,          0,           0],
          [q_x_vx, q_vx_vx, 0,     0,       0,      0,       0,          0,           0],
          [0,      0,       q_y_y, q_y_vy,  0,      0,       0,          0,           0],
          [0,      0,       q_y_vy, q_vy_vy, 0,     0,       0,          0,           0],
          [0,      0,       0,     0,       q_z_z,  q_z_vz,  0,          0,           0],
          [0,      0,       0,     0,       q_z_vz, q_vz_vz, 0,          0,           0],
          [0,      0,       0,     0,       0,      0,       q_yaw_yaw,  q_yaw_vyaw,  0],
          [0,      0,       0,     0,       0,      0,       q_yaw_vyaw, q_vyaw_vyaw, 0],
          [0,      0,       0,     0,       0,      0,       0,          0,           q_r]])"

text \<open>
  The measurement noise provider \<^verbatim>\<open>u_r\<close> fills the diagonal of an
  \<^verbatim>\<open>Eigen::DiagonalMatrix<double, 4>\<close>, which stores nothing but that diagonal;
  \<open>coeff\<close> is the matrix it denotes. The unqualified \<^verbatim>\<open>abs\<close> is applied to a
  \<^verbatim>\<open>double\<close> and is taken to be the floating-point overload.
\<close>

datatype DiagonalMatrix = DiagonalMatrix (diagonal: "real list")

definition coeff :: "DiagonalMatrix \<Rightarrow> nat \<Rightarrow> nat \<Rightarrow> real" where
  "coeff m i j = (if i = j then diagonal m ! i else 0)"

definition u_r :: "('i, 's) ArmorSolverNode \<Rightarrow> real list \<Rightarrow> fault + DiagonalMatrix" where
  "u_r node z =
     (if length z \<le> 2 then Inl Index_Out_Of_Range
      else Inr (DiagonalMatrix
                  [\<bar>r_x node * z ! 0\<bar>, \<bar>r_y node * z ! 1\<bar>, \<bar>r_z node * z ! 2\<bar>, r_yaw node]))"

section \<open>Messages\<close>

text \<open>
  A header's stamp is the nanosecond count that \<^verbatim>\<open>rclcpp::Time\<close> holds for it.
  \<open>Point\<close> serves for \<^verbatim>\<open>geometry_msgs\<close> points and vectors alike.
\<close>

record Header =
  stamp :: int
  frame_id :: string

record 'a Point =
  pt_x :: 'a
  pt_y :: 'a
  pt_z :: 'a

text \<open>
  Modelled from the spec: the orientation of a pose is carried as its yaw angle (the
  conversion from the quaternion of the message is the tracker's, outside this file),
  and an armor carries the number that identifies the robot.
\<close>

record Pose =
  position :: "double Point"
  orientation_yaw :: double

record PoseStamped =
  ps_header :: Header
  ps_pose :: Pose

record Armor =
  number :: string
  pose :: Pose

record Armors =
  header :: Header
  armors :: "Armor list"

record Measurement =
  m_x :: real
  m_y :: real
  m_z :: real
  m_yaw :: real

record Target =
  target_header :: Header
  tracking :: bool
  target_id :: string
  armors_num :: int
  target_position :: "real Point"
  target_velocity :: "real Point"
  yaw :: real
  v_yaw :: real
  radius_1 :: real
  radius_2 :: real
  target_dz :: real

record GimbalCmd =
  cmd_pitch :: real
  cmd_yaw :: real
  yaw_diff :: real
  pitch_diff :: real
  distance :: real
  fire_advice :: bool

text \<open>A message object is value-initialised when it is declared: all fields zero.\<close>

definition Target_init :: Target where
  "Target_init =
     \<lparr>target_header = \<lparr>stamp = 0, frame_id = []\<rparr>, tracking = False, target_id = [],
      armors_num = 0, target_position = \<lparr>pt_x = 0, pt_y = 0, pt_z = 0\<rparr>,
      target_velocity = \<lparr>pt_x = 0, pt_y = 0, pt_z = 0\<rparr>, yaw = 0, v_yaw = 0,
      radius_1 = 0, radius_2 = 0, target_dz = 0\<rparr>"

definition GimbalCmd_init :: GimbalCmd where
  "GimbalCmd_init =
     \<lparr>cmd_pitch = 0, cmd_yaw = 0, yaw_diff = 0, pitch_diff = 0, distance = 0,
      fire_advice = False\<rparr>"

text \<open>What the callback sends out, in the order of the calls.\<close>

datatype Published =
    Measure_pub Measurement           \<comment> \<open>\<^verbatim>\<open>measure_pub_->publish\<close>\<close>
  | Target_pub Target                 \<comment> \<open>\<^verbatim>\<open>target_pub_->publish\<close>\<close>
  | Gimbal_pub GimbalCmd              \<comment> \<open>\<^verbatim>\<open>gimbal_pub_->publish\<close>\<close>
  | PublishMarkers Target GimbalCmd   \<comment> \<open>the call of \<^verbatim>\<open>publishMarkers\<close>\<close>

section \<open>The collaborators of the callback\<close>

text \<open>
  The callback calls into code that is not in this file. Each collaborator is a
  parameter of the model, as it stands when the callback runs:
  \<^item> \<open>tf2_transform\<close> is \<^verbatim>\<open>tf2_buffer_->transform\<close>; \<open>None\<close> is a
    \<^verbatim>\<open>tf2::TransformException\<close>;
  \<^item> \<open>Tracker_init\<close> and \<open>Tracker_update\<close> are \<^verbatim>\<open>Tracker::init\<close> and
    \<^verbatim>\<open>Tracker::update\<close>, which mutate the tracker;
  \<^item> \<open>Solver_new\<close> is the solver that the first callback constructs,
    \<open>Solver_solve\<close> is \<^verbatim>\<open>Solver::solve\<close> at the current time: it returns the command,
    or \<open>None\<close> when it throws, and the solver as the call leaves it.
\<close>

record ('i, 's) Env =
  tf2_transform :: "PoseStamped \<Rightarrow> string \<Rightarrow> PoseStamped option"
  Tracker_init :: "Armors \<Rightarrow> 'i Tracker \<Rightarrow> 'i Tracker"
  Tracker_update :: "Armors \<Rightarrow> 'i Tracker \<Rightarrow> 'i Tracker"
  Solver_new :: 's
  Solver_solve :: "'s \<Rightarrow> Target \<Rightarrow> GimbalCmd option \<times> 's"

section \<open>The callback\<close>

text \<open>
  The loop that transforms every armor of the message into the target frame. It stops
  at the first armor whose transform throws; the callback then returns.
\<close>

fun transform_armors ::
  "('i, 's) Env \<Rightarrow> Header \<Rightarrow> string \<Rightarrow> Armor list \<Rightarrow> Armor list option" where
  "transform_armors env hdr frame [] = Some []"
| "transform_armors env hdr frame (armor # rest) =
     (case tf2_transform env \<lparr>ps_header = hdr, ps_pose = pose armor\<rparr> frame of
        None \<Rightarrow> None
      | Some ps \<Rightarrow>
          (case transform_armors env hdr frame rest of
             None \<Rightarrow> None
           | Some rest' \<Rightarrow> Some (armor\<lparr>pose := ps_pose ps\<rparr> # rest')))"

text \<open>
  \<^verbatim>\<open>erase(remove_if(...))\<close> with the predicate \<^verbatim>\<open>abs(armor.pose.position.z) > 2\<close>:
  the armors that do not satisfy the predicate stay, in their order.
\<close>

definition abnormal :: "Armor \<Rightarrow> bool" where
  "abnormal armor = dgt (dabs (pt_z (position (pose armor)))) (Finite 2)"

definition remove_abnormal :: "Armor list \<Rightarrow> Armor list" where
  "remove_abnormal as = filter (\<lambda>armor. \<not> abnormal armor) as"

text \<open>
  \<^verbatim>\<open>static_cast<int>\<close> of a double truncates towards zero and is undefined when the
  truncated value is no \<^verbatim>\<open>int\<close> (32 bits), as it is for an infinity or a NaN;
  \<^verbatim>\<open>std::abs\<close> of the least \<^verbatim>\<open>int\<close> is undefined as well.
\<close>

definition towards_zero :: "real \<Rightarrow> int" where
  "towards_zero v = (if 0 \<le> v then \<lfloor>v\<rfloor> else \<lceil>v\<rceil>)"

fun static_cast_int :: "double \<Rightarrow> fault + int" where
  "static_cast_int (Finite v) =
     (if - (2 ^ 31) \<le> towards_zero v \<and> towards_zero v < 2 ^ 31 then Inr (towards_zero v)
      else Inl Undefined_Conversion)"
| "static_cast_int _ = Inl Undefined_Conversion"

definition std_abs :: "int \<Rightarrow> fault + int" where
  "std_abs n = (if n = - (2 ^ 31) then Inl Integer_Overflow else Inr \<bar>n\<bar>)"

text \<open>\<^verbatim>\<open>std::abs(static_cast<int>(lost_time_thres_ / dt_))\<close>, the quotient being a double.\<close>

definition compute_lost_thres :: "real \<Rightarrow> real \<Rightarrow> fault + int" where
  "compute_lost_thres thres t =
     (case static_cast_int (fdiv thres t) of
        Inl e \<Rightarrow> Inl e
      | Inr n \<Rightarrow> std_abs n)"

text \<open>
  \<^verbatim>\<open>(time - last_time_).seconds()\<close>, both times in nanoseconds: the difference is
  converted to a double and divided by the double \<open>1e9\<close>.
\<close>

definition seconds :: "int \<Rightarrow> real" where
  "seconds ns = nearest (nearest (real_of_int ns) / 10 ^ 9)"

text \<open>The assignments under \<^verbatim>\<open>// Fill target message\<close>.\<close>

definition fill_target :: "'i Tracker \<Rightarrow> Target \<Rightarrow> fault + Target" where
  "fill_target trk target_msg =
     (let state = target_state trk
      in if length state \<le> 8 then Inl Index_Out_Of_Range
         else Inr (target_msg\<lparr>
                tracking := True,
                target_id := tracked_id trk,
                armors_num := armors_num_int (tracked_armors_num trk),
                target_position := \<lparr>pt_x = state ! 0, pt_y = state ! 2, pt_z = state ! 4\<rparr>,
                target_velocity := \<lparr>pt_x = state ! 1, pt_y = state ! 3, pt_z = state ! 5\<rparr>,
                yaw := state ! 6,
                v_yaw := state ! 7,
                radius_1 := state ! 8,
                radius_2 := another_r trk,
                target_dz := dz trk\<rparr>))"

text \<open>
  The block under \<^verbatim>\<open>// Update tracker\<close>: it yields the node, the target message and
  what was published on the way.
\<close>

definition update_tracker ::
  "('i, 's) Env \<Rightarrow> Armors \<Rightarrow> int \<Rightarrow> Target \<Rightarrow> ('i, 's) ArmorSolverNode \<Rightarrow>
     fault + (('i, 's) ArmorSolverNode \<times> Target \<times> Published list)" where
  "update_tracker env armors_msg time target_msg node =
     (if tracker_state (tracker node) = LOST then
        Inr (node\<lparr>tracker := Tracker_init env armors_msg (tracker node)\<rparr>,
             target_msg\<lparr>tracking := False\<rparr>, [])
      else
        let t = seconds (time - last_time node);
            node = node\<lparr>dt := t\<rparr>
        in case compute_lost_thres (lost_time_thres node) t of
             Inl e \<Rightarrow> Inl e
           | Inr n \<Rightarrow>
               let trk = Tracker_update env armors_msg ((tracker node)\<lparr>lost_thres := n\<rparr>);
                   node = node\<lparr>tracker := trk\<rparr>
               in if length (measurement trk) \<le> 3 then Inl Index_Out_Of_Range
                  else
                    let measure_msg = \<lparr>m_x = measurement trk ! 0, m_y = measurement trk ! 1,
                                       m_z = measurement trk ! 2, m_yaw = measurement trk ! 3\<rparr>
                    in if tracker_state trk = DETECTING then
                         Inr (node, target_msg\<lparr>tracking := False\<rparr>, [Measure_pub measure_msg])
                       else if tracker_state trk = TRACKING \<or> tracker_state trk = TEMP_LOST then
                         (case fill_target trk target_msg of
                            Inl e \<Rightarrow> Inl e
                          | Inr target_msg \<Rightarrow> Inr (node, target_msg, [Measure_pub measure_msg]))
                       else Inr (node, target_msg, [Measure_pub measure_msg]))"

text \<open>
  The block under \<^verbatim>\<open>// Solve control command\<close>. The \<^verbatim>\<open>catch (...)\<close> handler and the
  \<^verbatim>\<open>else\<close> branch make the same four assignments to a fresh message.
\<close>

definition neutral_cmd :: GimbalCmd where
  "neutral_cmd = GimbalCmd_init\<lparr>yaw_diff := 0, pitch_diff := 0, distance := - 1, fire_advice := False\<rparr>"

definition solve_command :: "('i, 's) Env \<Rightarrow> Target \<Rightarrow> 's \<Rightarrow> GimbalCmd \<times> 's" where
  "solve_command env target_msg s =
     (if tracking target_msg then
        (case Solver_solve env s target_msg of
           (Some control_msg, s') \<Rightarrow> (control_msg, s')
         | (None, s') \<Rightarrow> (neutral_cmd, s'))
      else (neutral_cmd, s))"

definition armorsCallback ::
  "('i, 's) Env \<Rightarrow> Armors \<Rightarrow> ('i, 's) ArmorSolverNode \<Rightarrow>
     fault + (('i, 's) ArmorSolverNode \<times> Published list)" where
  "armorsCallback env armors_msg node =
     (let s = (case solver node of None \<Rightarrow> Solver_new env | Some s \<Rightarrow> s);
          node = node\<lparr>solver := Some s\<rparr>
      in case transform_armors env (header armors_msg) (target_frame node) (armors armors_msg) of
           None \<Rightarrow> Inr (node, [])
         | Some transformed \<Rightarrow>
             let armors_msg = armors_msg\<lparr>armors := remove_abnormal transformed\<rparr>;
                 time = stamp (header armors_msg);
                 target_msg = Target_init\<lparr>target_header :=
                                \<lparr>stamp = time, frame_id = target_frame node\<rparr>\<rparr>
             in (case update_tracker env armors_msg time target_msg node of
                   Inl e \<Rightarrow> Inl e
                 | Inr (node, target_msg, pubs) \<Rightarrow>
                     let (control_msg, s') = solve_command env target_msg s;
                         node = node\<lparr>solver := Some s'\<rparr>
                     in Inr (node\<lparr>last_time := time\<rparr>,
                             pubs @ [Target_pub target_msg, Gimbal_pub control_msg] @
                             (if debug_mode node then [PublishMarkers target_msg control_msg]
                              else []))))"

text \<open>The messages of one kind among what a callback published.\<close>

fun measurements_of :: "Published list \<Rightarrow> Measurement list" where
  "measurements_of [] = []"
| "measurements_of (Measure_pub m # ps) = m # measurements_of ps"
| "measurements_of (_ # ps) = measurements_of ps"

fun targets_of :: "Published list \<Rightarrow> Target list" where
  "targets_of [] = []"
| "targets_of (Target_pub t # ps) = t # targets_of ps"
| "targets_of (_ # ps) = targets_of ps"

fun gimbals_of :: "Published list \<Rightarrow> GimbalCmd list" where
  "gimbals_of [] = []"
| "gimbals_of (Gimbal_pub g # ps) = g # gimbals_of ps"
| "gimbals_of (_ # ps) = gimbals_of ps"

text \<open>
  The solver a callback works with, and the message it hands to the tracker once
  the transforms have yielded the armors \<open>as\<close>.
\<close>

definition solver_of :: "('i, 's) Env \<Rightarrow> ('i, 's) ArmorSolverNode \<Rightarrow> 's" where
  "solver_of env node = (case solver node of None \<Rightarrow> Solver_new env | Some s \<Rightarrow> s)"

definition tracker_input :: "Armors \<Rightarrow> Armor list \<Rightarrow> Armors" where
  "tracker_input armors_msg as = armors_msg\<lparr>armors := remove_abnormal as\<rparr>"

text \<open>The target message as the callback sets it up before it turns to the tracker.\<close>

definition start_target :: "Armors \<Rightarrow> ('i, 's) ArmorSolverNode \<Rightarrow> Target" where
  "start_target armors_msg node =
     Target_init\<lparr>target_header :=
                   \<lparr>stamp = stamp (header armors_msg), frame_id = target_frame node\<rparr>\<rparr>"

text \<open>A tick survives the transform stage when no transform of its armors throws.\<close>

definition survives :: "('i, 's) Env \<Rightarrow> Armors \<Rightarrow> ('i, 's) ArmorSolverNode \<Rightarrow> bool" where
  "survives env armors_msg node =
     (transform_armors env (header armors_msg) (target_frame node) (armors armors_msg) \<noteq> None)"

section \<open>A stream of frames\<close>

text \<open>
  The node is single-threaded: the callbacks of successive frames run one after the
  other, each with the collaborators as they are at that moment. A fault ends the run.
\<close>

fun run_ticks ::
  "(('i, 's) Env \<times> Armors) list \<Rightarrow> ('i, 's) ArmorSolverNode \<Rightarrow>
     fault + (('i, 's) ArmorSolverNode \<times> Published list)" where
  "run_ticks [] node = Inr (node, [])"
| "run_ticks ((env, armors_msg) # rest) node =
     (case armorsCallback env armors_msg node of
        Inl e \<Rightarrow> Inl e
      | Inr (node', pubs) \<Rightarrow>
          (case run_ticks rest node' of
             Inl e \<Rightarrow> Inl e
           | Inr (node'', pubs') \<Rightarrow> Inr (node'', pubs @ pubs')))"

text \<open>
  The stamp of the most recent frame of a stream that survived the transform stage,
  \<open>t0\<close> when there is none.
\<close>

fun latest_stamp :: "string \<Rightarrow> (('i, 's) Env \<times> Armors) list \<Rightarrow> int \<Rightarrow> int" where
  "latest_stamp frame [] t0 = t0"
| "latest_stamp frame ((env, armors_msg) # rest) t0 =
     latest_stamp frame rest
       (if transform_armors env (header armors_msg) frame (armors armors_msg) = None then t0
        else stamp (header armors_msg))"

section \<open>Sample inputs\<close>

text \<open>
  A node with the default configuration, and simple collaborators to run the callback
  on: a transform that keeps the pose and throws on a pose whose x is not a number, a
  tracker that locks on the first armor and counts its updates, and a solver that
  throws on a target of radius zero.
\<close>

definition sample_tracker :: "nat Tracker" where
  "sample_tracker =
     \<lparr>tracker_state = LOST, tracked_id = [], tracked_armors_num = NORMAL_4,
      target_state = [1, 0, 2, 0, 3, 0, 0, 0, 1 / 4], measurement = [3 / 4, 2, 3, 0],
      another_r = 1 / 4, dz = 0, tracking_thres = 5, lost_thres = 0, internals = 0\<rparr>"

definition sample_node :: "(nat, nat) ArmorSolverNode" where
  "sample_node =
     \<lparr>debug_mode = True, tracker = sample_tracker, lost_time_thres = 3 / 10, dt = 0,
      s2qx = 20, s2qy = 20, s2qz = 20, s2qyaw = 100, s2qr = 800,
      r_x = 5 / 100, r_y = 5 / 100, r_z = 5 / 100, r_yaw = 2 / 100,
      target_frame = ''odom'', last_time = 0, solver = None\<rparr>"

definition sample_transform :: "PoseStamped \<Rightarrow> string \<Rightarrow> PoseStamped option" where
  "sample_transform ps frame =
     (if pt_x (position (ps_pose ps)) = NaN then None
      else Some (ps\<lparr>ps_header := (ps_header ps)\<lparr>frame_id := frame\<rparr>\<rparr>))"

definition sample_init :: "Armors \<Rightarrow> nat Tracker \<Rightarrow> nat Tracker" where
  "sample_init armors_msg trk =
     (case armors armors_msg of
        [] \<Rightarrow> trk
      | armor # _ \<Rightarrow> trk\<lparr>tracker_state := DETECTING, tracked_id := number armor\<rparr>)"

definition sample_update :: "Armors \<Rightarrow> nat Tracker \<Rightarrow> nat Tracker" where
  "sample_update armors_msg trk =
     (case armors armors_msg of
        [] \<Rightarrow> trk\<lparr>tracker_state := (if tracker_state trk = DETECTING then LOST else TEMP_LOST)\<rparr>
      | armor # _ \<Rightarrow>
          trk\<lparr>tracker_state :=
                 (if tracker_state trk = DETECTING \<and> int (internals trk) + 1 < tracking_thres trk
                  then DETECTING else TRACKING),
               internals := internals trk + 1\<rparr>)"

definition sample_cmd :: GimbalCmd where
  "sample_cmd =
     \<lparr>cmd_pitch = 1, cmd_yaw = 2, yaw_diff = 1 / 2, pitch_diff = 1 / 4, distance = 3,
      fire_advice = True\<rparr>"

definition sample_solve :: "nat \<Rightarrow> Target \<Rightarrow> GimbalCmd option \<times> nat" where
  "sample_solve s target_msg =
     (if radius_1 target_msg = 0 then (None, s + 1) else (Some sample_cmd, s + 1))"

definition sample_env :: "(nat, nat) Env" where
  "sample_env =
     \<lparr>tf2_transform = sample_transform, Tracker_init = sample_init,
      Tracker_update = sample_update, Solver_new = 0, Solver_solve = sample_solve\<rparr>"

definition sample_armor :: "double \<Rightarrow> double \<Rightarrow> double \<Rightarrow> Armor" where
  "sample_armor px pz yw =
     \<lparr>number = ''3'',
      pose = \<lparr>position = \<lparr>pt_x = px, pt_y = Finite 0, pt_z = pz\<rparr>, orientation_yaw = yw\<rparr>\<rparr>"

definition sample_msg :: "int \<Rightarrow> Armor list \<Rightarrow> Armors" where
  "sample_msg t as = \<lparr>header = \<lparr>stamp = t, frame_id = ''camera''\<rparr>, armors = as\<rparr>"

text \<open>
  Nodes in the middle of a track: one that is tracking, one that is still detecting,
  and one whose target has radius zero, on which the sample solver throws.
\<close>

definition tracking_node :: "(nat, nat) ArmorSolverNode" where
  "tracking_node =
     sample_node\<lparr>tracker := sample_tracker\<lparr>tracker_state := TRACKING, tracked_id := ''3''\<rparr>,
                  last_time := 1000000000\<rparr>"

definition detecting_node :: "(nat, nat) ArmorSolverNode" where
  "detecting_node =
     sample_node\<lparr>tracker := sample_tracker\<lparr>tracker_state := DETECTING, tracked_id := ''3''\<rparr>,
                  last_time := 1000000000\<rparr>"

definition stalled_node :: "(nat, nat) ArmorSolverNode" where
  "stalled_node =
     sample_node\<lparr>tracker := sample_tracker\<lparr>tracker_state := TRACKING, tracked_id := ''3'',
                                              target_state := [1, 0, 2, 0, 3, 0, 0, 0, 0]\<rparr>,
                  last_time := 1000000000, solver := Some 7\<rparr>"

text \<open>
  A batch with a normal armor, one that is too high, and one whose height and yaw are
  not numbers; and a short stream: a frame that initialises the tracker, then a frame
  whose transform throws.
\<close>

definition mixed_batch :: "Armor list" where
  "mixed_batch =
     [sample_armor (Finite 1) (Finite (1 / 10)) (Finite 0),
      sample_armor (Finite 2) (Finite (5 / 2)) (Finite 0),
      (sample_armor (Finite 3) NaN NaN)\<lparr>number := ''4''\<rparr>]"

definition sample_stream :: "((nat, nat) Env \<times> Armors) list" where
  "sample_stream =
     [(sample_env, sample_msg 1000000000 [sample_armor (Finite 1) (Finite (1 / 10)) (Finite 0)]),
      (sample_env, sample_msg 1200000000 [sample_armor NaN (Finite (1 / 10)) (Finite 0)])]"

section \<open>Unfolding the definitions\<close>

text \<open>
  The equations that evaluate binary64 rounding on numerals, and the values of
  \<^verbatim>\<open>dt_\<close> and \<^verbatim>\<open>lost_thres\<close> on the sample inputs. With the threshold of 0.3 s the
  frame periods 0.5 s, 0.2 s, -1 s and -0.1 s give 0, 1, 0 and 2; the last quotient is the
  double just below 3 in absolute value.
\<close>

lemma binade_from_numeral:
  "binade_from (numeral n) v =
     (if v < 1 then binade_from (pred_numeral n) (2 * v) - 1
      else if 2 \<le> v then binade_from (pred_numeral n) (v / 2) + 1
      else 0)"
  by (simp add: numeral_eq_Suc)

lemmas float_defs =
  nearest_even_def rne_def binade_def binade_from_numeral scale_def round_at_def
  nearest_def overflow_def to_double_def divide_doubles_def fdiv_def

lemma seconds_samples:
  "seconds 500000000 = 1 / 2"
  "seconds 200000000 = 3602879701896397 / 18014398509481984"
  "seconds (- 1000000000) = - 1"
  "seconds (- 100000000) = - (3602879701896397 / 36028797018963968)"
  by (simp_all add: seconds_def float_defs)

lemma quotient_samples:
  "fdiv (3 / 10) (1 / 2) = Finite (5404319552844595 / 9007199254740992)"
  "fdiv (3 / 10) (3602879701896397 / 18014398509481984)
     = Finite (6755399441055743 / 4503599627370496)"
  "fdiv (3 / 10) (- 1) = Finite (- (5404319552844595 / 18014398509481984))"
  "fdiv (3 / 10) (- (3602879701896397 / 36028797018963968))
     = Finite (- (6755399441055743 / 2251799813685248))"
  by (simp_all add: float_defs)

text \<open>
  At the frame periods 0.1 s and 0.05 s the exact quotients of the decimal numbers are 3
  and 6; the doubles give 2 and 5.
\<close>

lemma lost_thres_at_frame_rates:
  "compute_lost_thres (3 / 10) (1 / 10) = Inr 2"
  "compute_lost_thres (3 / 10) (1 / 20) = Inr 5"
  "compute_lost_thres (3 / 10) (- (1 / 10)) = Inr 2"
  "compute_lost_thres (3 / 10) 0 = Inl Undefined_Conversion"
  by (simp_all add: compute_lost_thres_def float_defs towards_zero_def std_abs_def)

lemma lost_thres_samples:
  "compute_lost_thres (3 / 10) (1 / 2) = Inr 0"
  "compute_lost_thres (3 / 10) (3602879701896397 / 18014398509481984) = Inr 1"
  "compute_lost_thres (3 / 10) (- 1) = Inr 0"
  "compute_lost_thres (3 / 10) (- (3602879701896397 / 36028797018963968)) = Inr 2"
  by (simp_all add: compute_lost_thres_def quotient_samples towards_zero_def std_abs_def)

text \<open>The equations that evaluate the callback on the sample inputs.\<close>

lemmas sample_defs =
  sample_env_def sample_transform_def sample_init_def sample_update_def sample_solve_def
  sample_cmd_def sample_node_def sample_tracker_def sample_armor_def sample_msg_def

lemmas callback_defs =
  armorsCallback_def update_tracker_def fill_target_def solve_command_def neutral_cmd_def
  seconds_samples lost_thres_samples remove_abnormal_def
  abnormal_def Target_init_def GimbalCmd_init_def survives_def

section \<open>Properties of the filter's model functions\<close>

subsection \<open>Process noise\<close>

text \<open>
  The entries of \<open>Q\<close> in the z block and in the yaw block that the source computes
  from the density of the x axis.
\<close>

lemma u_q_entries:
  "u_q node ! 4 ! 4 = dt node ^ 4 / 4 * s2qx node \<and>
   u_q node ! 4 ! 5 = dt node ^ 3 / 2 * s2qx node \<and>
   u_q node ! 5 ! 4 = dt node ^ 3 / 2 * s2qx node \<and>
   u_q node ! 6 ! 7 = dt node ^ 3 / 2 * s2qx node \<and>
   u_q node ! 7 ! 6 = dt node ^ 3 / 2 * s2qx node"
  by (simp add: u_q_def Let_def)

text \<open>
  C1 (the code departs from the claim). With \<open>dt = 1\<close>, \<open>sigma2_q_x = 20\<close>,
  \<open>sigma2_q_z = 40\<close> and \<open>sigma2_q_yaw = 100\<close> the provider \<^verbatim>\<open>u_q\<close> yields
  \<open>Q(4,4) = 5\<close>, \<open>Q(4,5) = 10\<close> and \<open>Q(6,7) = 10\<close>: the values that the density of the
  x axis gives. With the density of the axis itself, as the claim has it, they would
  be \<open>dt^4/4 * sigma2_q_z = 10\<close>, \<open>dt^3/2 * sigma2_q_z = 20\<close> and
  \<open>dt^3/2 * sigma2_q_yaw = 50\<close>.
\<close>

theorem u_q_at_unit_step:
  "u_q (sample_node\<lparr>dt := 1, s2qz := 40\<rparr>) ! 4 ! 4 = 5 \<and>
   u_q (sample_node\<lparr>dt := 1, s2qz := 40\<rparr>) ! 4 ! 5 = 10 \<and>
   u_q (sample_node\<lparr>dt := 1, s2qz := 40\<rparr>) ! 6 ! 7 = 10 \<and>
   dt (sample_node\<lparr>dt := 1, s2qz := 40\<rparr>) ^ 4 / 4 * s2qz (sample_node\<lparr>dt := 1, s2qz := 40\<rparr>) = 10 \<and>
   dt (sample_node\<lparr>dt := 1, s2qz := 40\<rparr>) ^ 3 / 2 * s2qz (sample_node\<lparr>dt := 1, s2qz := 40\<rparr>) = 20 \<and>
   dt (sample_node\<lparr>dt := 1, s2qz := 40\<rparr>) ^ 3 / 2 * s2qyaw (sample_node\<lparr>dt := 1, s2qz := 40\<rparr>) = 50"
  by (simp add: u_q_def sample_node_def Let_def)

subsection \<open>Measurement noise\<close>

text \<open>
  C8. For every measurement vector \<open>z\<close> (four components) the provider \<^verbatim>\<open>u_r\<close> returns
  the diagonal matrix whose diagonal is \<open>|r_x * z0|\<close>, \<open>|r_y * z1|\<close>, \<open>|r_z * z2|\<close>,
  \<open>r_yaw\<close>: the first three entries scale with the absolute value of the measurement
  component, the last is the constant \<open>r_yaw\<close>, and every entry off the diagonal is zero.
\<close>

theorem u_r_diag:
  assumes "length z = 4"
  shows "\<exists>m. u_r node z = Inr m \<and> length (diagonal m) = 4 \<and>
           coeff m 0 0 = \<bar>r_x node * z ! 0\<bar> \<and>
           coeff m 1 1 = \<bar>r_y node * z ! 1\<bar> \<and>
           coeff m 2 2 = \<bar>r_z node * z ! 2\<bar> \<and>
           coeff m 3 3 = r_yaw node \<and>
           (\<forall>i < 4. \<forall>j < 4. i \<noteq> j \<longrightarrow> coeff m i j = 0)"
  using assms by (simp add: u_r_def coeff_def)

theorem u_r_diag_witness:
  "length [2, - 4, 1, 3 :: real] = 4 \<and>
   (\<exists>m. u_r sample_node [2, - 4, 1, 3] = Inr m \<and> length (diagonal m) = 4 \<and>
           coeff m 0 0 = 1 / 10 \<and> coeff m 1 1 = 1 / 5 \<and> coeff m 2 2 = 1 / 20 \<and>
           coeff m 3 3 = 1 / 50 \<and> coeff m 0 1 = 0 \<and> coeff m 3 2 = 0)"
proof -
  have len: "length [2, - 4, 1, 3 :: real] = 4" by simp
  from u_r_diag [OF len, of sample_node] obtain m where
    m: "u_r sample_node [2, - 4, 1, 3] = Inr m" "length (diagonal m) = 4"
       "coeff m 0 0 = \<bar>r_x sample_node * [2, - 4, 1, 3] ! 0\<bar>"
       "coeff m 1 1 = \<bar>r_y sample_node * [2, - 4, 1, 3] ! 1\<bar>"
       "coeff m 2 2 = \<bar>r_z sample_node * [2, - 4, 1, 3] ! 2\<bar>"
       "coeff m 3 3 = r_yaw sample_node"
    and off: "\<forall>i < 4. \<forall>j < 4. i \<noteq> j \<longrightarrow> coeff m i j = 0"
    by (elim exE conjE)
  from off have "coeff m 0 1 = 0" "coeff m 3 2 = 0" by simp_all
  with m show ?thesis by (simp add: sample_node_def)
qed

subsection \<open>Observation function and its Jacobian\<close>

lemma len9:
  "length (x::real list) = 9 \<Longrightarrow>
     \<exists>a0 a1 a2 a3 a4 a5 a6 a7 a8. x = [a0,a1,a2,a3,a4,a5,a6,a7,a8]"
  by (auto simp: length_Suc_conv eval_nat_numeral)

lemma lt4:
  "(i::nat) < 4 \<Longrightarrow> i = 0 \<or> i = 1 \<or> i = 2 \<or> i = 3"
  by arith

lemma lt9:
  "(j::nat) < 9 \<Longrightarrow>
     j = 0 \<or> j = 1 \<or> j = 2 \<or> j = 3 \<or> j = 4 \<or> j = 5 \<or> j = 6 \<or> j = 7 \<or> j = 8"
  by arith

lemma h_row:
  "h [a0,a1,a2,a3,a4,a5,a6,a7,a8] = Inr [a0 - a8 * cos a6, a2 - a8 * sin a6, a4, a6]"
  by (simp add: h_def)

lemma jh_row:
  "j_h [a0,a1,a2,a3,a4,a5,a6,a7,a8] = Inr [[1, 0, 0, 0, 0, 0, a8 * sin a6, 0, - cos a6],
                   [0, 0, 1, 0, 0, 0, - a8 * cos a6, 0, - sin a6],
                   [0, 0, 0, 0, 1, 0, 0, 0, 0],
                   [0, 0, 0, 0, 0, 0, 1, 0, 0]]"
  by (simp add: j_h_def)

lemma partials:
  assumes "i < 4" "j < 9"
  shows "((\<lambda>v. projr (h ([a0,a1,a2,a3,a4,a5,a6,a7,a8][j := v])) ! i) has_real_derivative
           projr (j_h [a0,a1,a2,a3,a4,a5,a6,a7,a8]) ! i ! j) (at ([a0,a1,a2,a3,a4,a5,a6,a7,a8] ! j))"
  using lt4[OF assms(1)] lt9[OF assms(2)]
  by (elim disjE; hypsubst; simp add: h_row jh_row; auto intro!: derivative_eq_intros)

lemma jh_shape:
  "length (projr (j_h [a0,a1,a2,a3,a4,a5,a6,a7,a8])) = 4 \<and>
   (\<forall>i < 4. length (projr (j_h [a0,a1,a2,a3,a4,a5,a6,a7,a8]) ! i) = 9)"
proof -
  have "length (projr (j_h [a0,a1,a2,a3,a4,a5,a6,a7,a8]) ! i) = 9" if "i < 4" for i
    using lt4[OF that] by (elim disjE; hypsubst; simp add: jh_row)
  then show ?thesis by (simp add: jh_row)
qed

text \<open>
  C2. For every state \<open>x\<close> of nine components the observation function \<^verbatim>\<open>h\<close> returns
  \<open>(xc - r cos yaw, yc - r sin yaw, za, yaw)\<close> with \<open>xc = x(0)\<close>, \<open>yc = x(2)\<close>,
  \<open>za = x(4)\<close>, \<open>yaw = x(6)\<close>, \<open>r = x(8)\<close>, and \<^verbatim>\<open>j_h\<close> returns a 4 by 9 matrix whose
  entry \<open>(i, j)\<close> is the partial derivative of the \<open>i\<close>-th of these equations with
  respect to the \<open>j\<close>-th component of the state.
\<close>

theorem h_observation_and_jacobian:
  assumes "length x = 9"
  shows "h x = Inr [x ! 0 - x ! 8 * cos (x ! 6), x ! 2 - x ! 8 * sin (x ! 6), x ! 4, x ! 6] \<and>
         (\<exists>J. j_h x = Inr J \<and> length J = 4 \<and> (\<forall>i < 4. length (J ! i) = 9) \<and>
            (\<forall>i < 4. \<forall>j < 9.
               ((\<lambda>v. projr (h (x[j := v])) ! i) has_real_derivative J ! i ! j) (at (x ! j))))"
proof -
  from len9[OF assms] obtain a0 a1 a2 a3 a4 a5 a6 a7 a8
    where x: "x = [a0,a1,a2,a3,a4,a5,a6,a7,a8]" by blast
  have 1: "h x = Inr [x ! 0 - x ! 8 * cos (x ! 6), x ! 2 - x ! 8 * sin (x ! 6), x ! 4, x ! 6]"
    by (simp add: x h_row)
  have 2: "j_h x = Inr (projr (j_h x))"
    by (simp add: x jh_row)
  show ?thesis
    using 1 2 jh_shape[of a0 a1 a2 a3 a4 a5 a6 a7 a8] partials[of _ _ a0 a1 a2 a3 a4 a5 a6 a7 a8]
    unfolding x[symmetric] by blast
qed

theorem h_observation_and_jacobian_witness:
  "length [1, 0, 2, 0, 3, 0, 0, 0, 1 / 4 :: real] = 9 \<and>
   h [1, 0, 2, 0, 3, 0, 0, 0, 1 / 4] = Inr [3 / 4, 2, 3, 0] \<and>
   ((\<lambda>v. projr (h [1, 0, 2, 0, 3, 0, v, 0, 1 / 4]) ! 1) has_real_derivative - (1 / 4)) (at 0)"
proof -
  let ?x = "[1, 0, 2, 0, 3, 0, 0, 0, 1 / 4 :: real]"
  have len: "length ?x = 9" by simp
  from h_observation_and_jacobian[OF len] obtain J where
    hx: "h ?x = Inr [?x ! 0 - ?x ! 8 * cos (?x ! 6), ?x ! 2 - ?x ! 8 * sin (?x ! 6), ?x ! 4, ?x ! 6]"
    and J: "j_h ?x = Inr J"
    and d: "\<forall>i < 4. \<forall>j < 9.
               ((\<lambda>v. projr (h (?x[j := v])) ! i) has_real_derivative J ! i ! j) (at (?x ! j))"
    by blast
  from J have Jv: "J ! 1 ! 6 = - (1 / 4)" by (auto simp add: j_h_def)
  have "((\<lambda>v. projr (h (?x[6 := v])) ! 1) has_real_derivative J ! 1 ! 6) (at (?x ! 6))"
    using d[rule_format, of 1 6] by simp
  with Jv have "((\<lambda>v. projr (h [1, 0, 2, 0, 3, 0, v, 0, 1 / 4]) ! 1) has_real_derivative - (1 / 4)) (at 0)"
    by simp
  moreover from hx have "h ?x = Inr [3 / 4, 2, 3, 0]" by simp
  ultimately show ?thesis by simp
qed

section \<open>Properties of the callback\<close>

subsection \<open>The shape of a callback's result\<close>

lemma transform_armors_None_iff:
  "transform_armors env hdr frame as = None \<longleftrightarrow>
     (\<exists>armor \<in> set as. tf2_transform env \<lparr>ps_header = hdr, ps_pose = pose armor\<rparr> frame = None)"
  by (induction as) (auto split: option.splits)

lemma measurements_of_append [simp]:
  "measurements_of (ps @ qs) = measurements_of ps @ measurements_of qs"
  by (induction ps rule: measurements_of.induct) simp_all

lemma targets_of_append [simp]:
  "targets_of (ps @ qs) = targets_of ps @ targets_of qs"
  by (induction ps rule: targets_of.induct) simp_all

lemma gimbals_of_append [simp]:
  "gimbals_of (ps @ qs) = gimbals_of ps @ gimbals_of qs"
  by (induction ps rule: gimbals_of.induct) simp_all

lemma armorsCallback_dropped:
  assumes "\<not> survives env msg node"
  shows "armorsCallback env msg node = Inr (node\<lparr>solver := Some (solver_of env node)\<rparr>, [])"
  using assms by (simp add: armorsCallback_def survives_def solver_of_def Let_def)
lemma armorsCallback_processed:
  assumes "transform_armors env (header msg) (target_frame node) (armors msg) = Some as"
  shows "armorsCallback env msg node =
     (case update_tracker env (tracker_input msg as) (stamp (header msg)) (start_target msg node)
             (node\<lparr>solver := Some (solver_of env node)\<rparr>) of
        Inl e \<Rightarrow> Inl e
      | Inr (node2, t, ps) \<Rightarrow>
          Inr (node2\<lparr>solver := Some (snd (solve_command env t (solver_of env node))),
                     last_time := stamp (header msg)\<rparr>,
               ps @ [Target_pub t, Gimbal_pub (fst (solve_command env t (solver_of env node)))] @
               (if debug_mode node2 then [PublishMarkers t (fst (solve_command env t (solver_of env node)))] else [])))"
  using assms
  by (simp add: armorsCallback_def solver_of_def tracker_input_def start_target_def Let_def
           split: sum.splits prod.splits)

lemma update_tracker_lost:
  assumes "tracker_state (tracker node) = LOST"
  shows "update_tracker env m time t node =
           Inr (node\<lparr>tracker := Tracker_init env m (tracker node)\<rparr>, t\<lparr>tracking := False\<rparr>, [])"
  using assms by (simp add: update_tracker_def)

lemma update_tracker_not_lost:
  assumes "tracker_state (tracker node) \<noteq> LOST"
      and "update_tracker env m time t node = Inr (node2, t2, ps)"
  shows "\<exists>n. compute_lost_thres (lost_time_thres node) (seconds (time - last_time node)) = Inr n \<and>
             node2 = node\<lparr>dt := seconds (time - last_time node),
                           tracker := Tracker_update env m ((tracker node)\<lparr>lost_thres := n\<rparr>)\<rparr> \<and>
             3 < length (measurement (tracker node2)) \<and>
             ps = [Measure_pub \<lparr>m_x = measurement (tracker node2) ! 0, m_y = measurement (tracker node2) ! 1,
                                 m_z = measurement (tracker node2) ! 2, m_yaw = measurement (tracker node2) ! 3\<rparr>] \<and>
             (if tracker_state (tracker node2) = TRACKING \<or> tracker_state (tracker node2) = TEMP_LOST
              then fill_target (tracker node2) t = Inr t2
              else t2 = (if tracker_state (tracker node2) = DETECTING then t\<lparr>tracking := False\<rparr> else t))"
  using assms
  by (auto simp add: update_tracker_def Let_def split: sum.splits if_splits)

subsection \<open>The target snapshot\<close>

text \<open>
  C3. On every processed tick exactly one target message is published. Its flag
  \<open>tracking\<close> is true if and only if the tracker is in state \<open>TRACKING\<close> or
  \<open>TEMP_LOST\<close> after the step; then its payload is the tracker's: id, number of armors,
  position \<open>(state(0), state(2), state(4))\<close>, velocity \<open>(state(1), state(3), state(5))\<close>,
  yaw \<open>state(6)\<close>, yaw rate \<open>state(7)\<close>, first radius \<open>state(8)\<close>, second radius
  \<open>another_r\<close>, and \<open>dz\<close>. Otherwise every field of the payload is zero. On a tick that
  starts in \<open>LOST\<close> the callback clears the flag without looking at the tracker; the
  statement relies on \<^verbatim>\<open>Tracker::init\<close> leaving a lost tracker in \<open>LOST\<close> or
  \<open>DETECTING\<close>, which is its contract in the specification.
\<close>

theorem target_snapshot:
  assumes surv: "survives env msg node"
      and res: "armorsCallback env msg node = Inr (node', pubs)"
      and init: "\<forall>m trk. tracker_state trk = LOST \<longrightarrow>
                   tracker_state (Tracker_init env m trk) \<in> {LOST, DETECTING}"
  shows "\<exists>t. targets_of pubs = [t] \<and>
           (tracking t \<longleftrightarrow> tracker_state (tracker node') \<in> {TRACKING, TEMP_LOST}) \<and>
           (tracking t \<longrightarrow>
              8 < length (target_state (tracker node')) \<and>
              target_id t = tracked_id (tracker node') \<and>
              armors_num t = armors_num_int (tracked_armors_num (tracker node')) \<and>
              target_position t = \<lparr>pt_x = target_state (tracker node') ! 0,
                                    pt_y = target_state (tracker node') ! 2,
                                    pt_z = target_state (tracker node') ! 4\<rparr> \<and>
              target_velocity t = \<lparr>pt_x = target_state (tracker node') ! 1,
                                    pt_y = target_state (tracker node') ! 3,
                                    pt_z = target_state (tracker node') ! 5\<rparr> \<and>
              yaw t = target_state (tracker node') ! 6 \<and>
              v_yaw t = target_state (tracker node') ! 7 \<and>
              radius_1 t = target_state (tracker node') ! 8 \<and>
              radius_2 t = another_r (tracker node') \<and>
              target_dz t = dz (tracker node')) \<and>
           (\<not> tracking t \<longrightarrow>
              target_id t = [] \<and> armors_num t = 0 \<and>
              target_position t = \<lparr>pt_x = 0, pt_y = 0, pt_z = 0\<rparr> \<and>
              target_velocity t = \<lparr>pt_x = 0, pt_y = 0, pt_z = 0\<rparr> \<and>
              yaw t = 0 \<and> v_yaw t = 0 \<and> radius_1 t = 0 \<and> radius_2 t = 0 \<and> target_dz t = 0)"
proof -
  from surv obtain as where
    as: "transform_armors env (header msg) (target_frame node) (armors msg) = Some as"
    by (auto simp: survives_def)
  let ?node1 = "node\<lparr>solver := Some (solver_of env node)\<rparr>"
  let ?t0 = "start_target msg node"
  from res obtain node2 t ps where
    upd: "update_tracker env (tracker_input msg as) (stamp (header msg)) ?t0 ?node1 = Inr (node2, t, ps)"
    and trk: "tracker node' = tracker node2"
    and pubs: "targets_of pubs = targets_of ps @ [t]"
    by (auto simp: armorsCallback_processed[OF as] split: sum.splits prod.splits if_splits)
  show ?thesis
  proof (cases "tracker_state (tracker node) = LOST")
    case True
    with upd have "node2 = ?node1\<lparr>tracker := Tracker_init env (tracker_input msg as) (tracker node)\<rparr>"
      and "t = ?t0\<lparr>tracking := False\<rparr>" and "ps = []"
      by (simp_all add: update_tracker_lost)
    moreover from init True
    have "tracker_state (Tracker_init env (tracker_input msg as) (tracker node)) \<in> {LOST, DETECTING}"
      by blast
    ultimately show ?thesis using trk pubs
      by (auto simp: start_target_def Target_init_def)
  next
    case False
    then have "tracker_state (tracker ?node1) \<noteq> LOST" by simp
    from update_tracker_not_lost[OF this upd] trk pubs show ?thesis
      by (cases "tracker_state (tracker node2)")
         (auto simp: start_target_def Target_init_def fill_target_def Let_def split: if_splits)
  qed
qed
theorem target_snapshot_witness:
  "survives sample_env
     (sample_msg 1500000000 [sample_armor (Finite 1) (Finite (1 / 10)) (Finite 0)]) tracking_node \<and>
   (\<exists>node' pubs.
      armorsCallback sample_env
        (sample_msg 1500000000 [sample_armor (Finite 1) (Finite (1 / 10)) (Finite 0)])
        tracking_node = Inr (node', pubs) \<and>
      tracker_state (tracker node') = TRACKING \<and>
      targets_of pubs =
        [\<lparr>target_header = \<lparr>stamp = 1500000000, frame_id = ''odom''\<rparr>, tracking = True,
          target_id = ''3'', armors_num = 4, target_position = \<lparr>pt_x = 1, pt_y = 2, pt_z = 3\<rparr>,
          target_velocity = \<lparr>pt_x = 0, pt_y = 0, pt_z = 0\<rparr>, yaw = 0, v_yaw = 0,
          radius_1 = 1 / 4, radius_2 = 1 / 4, target_dz = 0\<rparr>])"
proof -
  let ?msg = "sample_msg 1500000000 [sample_armor (Finite 1) (Finite (1 / 10)) (Finite 0)]"
  have surv: "survives sample_env ?msg tracking_node"
    by (simp add: sample_defs tracking_node_def callback_defs)
  have init: "\<forall>m trk. tracker_state trk = LOST \<longrightarrow>
                tracker_state (Tracker_init sample_env m trk) \<in> {LOST, DETECTING}"
    by (simp add: sample_env_def sample_init_def split: list.splits)
  obtain node' pubs where
    res: "armorsCallback sample_env ?msg tracking_node = Inr (node', pubs)"
    and st: "tracker_state (tracker node') = TRACKING"
    and tr: "tracked_id (tracker node') = ''3''" "tracked_armors_num (tracker node') = NORMAL_4"
            "target_state (tracker node') = [1, 0, 2, 0, 3, 0, 0, 0, 1 / 4]"
            "another_r (tracker node') = 1 / 4" "dz (tracker node') = 0"
    and hd: "map target_header (targets_of pubs) = [\<lparr>stamp = 1500000000, frame_id = ''odom''\<rparr>]"
    by (simp add: sample_defs tracking_node_def callback_defs Let_def)
  from target_snapshot[OF surv res init] st tr hd
  have "targets_of pubs =
        [\<lparr>target_header = \<lparr>stamp = 1500000000, frame_id = ''odom''\<rparr>, tracking = True,
          target_id = ''3'', armors_num = 4, target_position = \<lparr>pt_x = 1, pt_y = 2, pt_z = 3\<rparr>,
          target_velocity = \<lparr>pt_x = 0, pt_y = 0, pt_z = 0\<rparr>, yaw = 0, v_yaw = 0,
          radius_1 = 1 / 4, radius_2 = 1 / 4, target_dz = 0\<rparr>]"
    by auto
  with surv res st show ?thesis by blast
qed

subsection \<open>The measurement message\<close>

text \<open>
  C9. On every processed tick a measurement message is published if and only if the
  tracker was not in state \<open>LOST\<close> when the tick began, and then it is published once
  and its fields \<open>x, y, z, yaw\<close> are the four components of the vector \<open>measurement\<close>
  that the tracker holds after its update.
\<close>

theorem measurement_published:
  assumes surv: "survives env msg node"
      and res: "armorsCallback env msg node = Inr (node', pubs)"
  shows "(tracker_state (tracker node) = LOST \<longrightarrow> measurements_of pubs = []) \<and>
         (tracker_state (tracker node) \<noteq> LOST \<longrightarrow>
            3 < length (measurement (tracker node')) \<and>
            measurements_of pubs =
              [\<lparr>m_x = measurement (tracker node') ! 0, m_y = measurement (tracker node') ! 1,
                m_z = measurement (tracker node') ! 2, m_yaw = measurement (tracker node') ! 3\<rparr>])"
proof -
  from surv obtain as where
    as: "transform_armors env (header msg) (target_frame node) (armors msg) = Some as"
    by (auto simp: survives_def)
  let ?node1 = "node\<lparr>solver := Some (solver_of env node)\<rparr>"
  from res obtain node2 t ps where
    upd: "update_tracker env (tracker_input msg as) (stamp (header msg)) (start_target msg node) ?node1
            = Inr (node2, t, ps)"
    and trk: "tracker node' = tracker node2"
    and pubs: "measurements_of pubs = measurements_of ps"
    by (auto simp: armorsCallback_processed[OF as] split: sum.splits prod.splits if_splits)
  show ?thesis
  proof (cases "tracker_state (tracker node) = LOST")
    case True
    with upd have "ps = []" by (simp add: update_tracker_lost)
    with True pubs show ?thesis by simp
  next
    case False
    then have "tracker_state (tracker ?node1) \<noteq> LOST" by simp
    from update_tracker_not_lost[OF this upd] False trk pubs show ?thesis by auto
  qed
qed

theorem measurement_published_witness:
  "survives sample_env
     (sample_msg 1200000000 [sample_armor (Finite 1) (Finite (1 / 10)) (Finite 0)]) detecting_node \<and>
   tracker_state (tracker detecting_node) \<noteq> LOST \<and>
   (\<exists>node' pubs.
      armorsCallback sample_env
        (sample_msg 1200000000 [sample_armor (Finite 1) (Finite (1 / 10)) (Finite 0)])
        detecting_node = Inr (node', pubs) \<and>
      measurements_of pubs = [\<lparr>m_x = 3 / 4, m_y = 2, m_z = 3, m_yaw = 0\<rparr>])"
proof -
  let ?msg = "sample_msg 1200000000 [sample_armor (Finite 1) (Finite (1 / 10)) (Finite 0)]"
  have surv: "survives sample_env ?msg detecting_node"
    by (simp add: sample_defs detecting_node_def callback_defs)
  have st: "tracker_state (tracker detecting_node) \<noteq> LOST"
    by (simp add: detecting_node_def)
  obtain node' pubs where
    res: "armorsCallback sample_env ?msg detecting_node = Inr (node', pubs)"
    and m: "measurement (tracker node') = [3 / 4, 2, 3, 0]"
    by (simp add: sample_defs detecting_node_def callback_defs Let_def)
  from measurement_published[OF surv res] st m
  have "measurements_of pubs = [\<lparr>m_x = 3 / 4, m_y = 2, m_z = 3, m_yaw = 0\<rparr>]"
    by simp
  with surv st res show ?thesis by blast
qed

subsection \<open>The gimbal command\<close>

text \<open>
  C7. On every processed tick exactly one gimbal command is published. If the target
  snapshot has \<open>tracking = false\<close>, or the solver throws, the command has
  \<open>yaw_diff = 0\<close>, \<open>pitch_diff = 0\<close>, \<open>distance = -1\<close> and \<open>fire_advice = false\<close>; the
  callback goes on to its end all the same: it calls \<^verbatim>\<open>publishMarkers\<close> in debug mode and
  stores the frame's stamp in \<^verbatim>\<open>last_time_\<close>.
\<close>

theorem gimbal_command:
  assumes surv: "survives env msg node"
      and res: "armorsCallback env msg node = Inr (node', pubs)"
  shows "\<exists>t g. targets_of pubs = [t] \<and> gimbals_of pubs = [g] \<and>
           (\<not> tracking t \<or> fst (Solver_solve env (solver_of env node) t) = None \<longrightarrow>
              yaw_diff g = 0 \<and> pitch_diff g = 0 \<and> distance g = - 1 \<and> \<not> fire_advice g) \<and>
           (debug_mode node \<longrightarrow> PublishMarkers t g \<in> set pubs) \<and>
           last_time node' = stamp (header msg)"
proof -
  from surv obtain as where
    as: "transform_armors env (header msg) (target_frame node) (armors msg) = Some as"
    by (auto simp: survives_def)
  let ?node1 = "node\<lparr>solver := Some (solver_of env node)\<rparr>"
  let ?g = "\<lambda>t. fst (solve_command env t (solver_of env node))"
  from res obtain node2 t ps where
    upd: "update_tracker env (tracker_input msg as) (stamp (header msg)) (start_target msg node) ?node1
            = Inr (node2, t, ps)"
    and lt: "last_time node' = stamp (header msg)"
    and pubs: "pubs = ps @ [Target_pub t, Gimbal_pub (?g t)] @
                 (if debug_mode node2 then [PublishMarkers t (?g t)] else [])"
    by (auto simp: armorsCallback_processed[OF as] split: sum.splits prod.splits if_splits)
  have ps: "targets_of ps = [] \<and> gimbals_of ps = [] \<and> debug_mode node2 = debug_mode node"
  proof (cases "tracker_state (tracker node) = LOST")
    case True
    with upd show ?thesis by (auto simp: update_tracker_lost)
  next
    case False
    then have "tracker_state (tracker ?node1) \<noteq> LOST" by simp
    from update_tracker_not_lost[OF this upd] show ?thesis by auto
  qed
  have neutral: "yaw_diff (?g t) = 0 \<and> pitch_diff (?g t) = 0 \<and> distance (?g t) = - 1 \<and>
                 \<not> fire_advice (?g t)"
    if "\<not> tracking t \<or> fst (Solver_solve env (solver_of env node) t) = None"
    using that
    by (auto simp: solve_command_def neutral_cmd_def GimbalCmd_init_def split: prod.splits option.splits)
  from ps pubs have "targets_of pubs = [t]" "gimbals_of pubs = [?g t]"
    "debug_mode node \<longrightarrow> PublishMarkers t (?g t) \<in> set pubs"
    by auto
  with neutral lt show ?thesis
    by (intro exI[of _ t] exI[of _ "?g t"]) simp
qed

theorem gimbal_command_witness:
  "survives sample_env
     (sample_msg 1500000000 [sample_armor (Finite 1) (Finite (1 / 10)) (Finite 0)]) stalled_node \<and>
   (\<exists>node' pubs t.
      armorsCallback sample_env
        (sample_msg 1500000000 [sample_armor (Finite 1) (Finite (1 / 10)) (Finite 0)])
        stalled_node = Inr (node', pubs) \<and>
      targets_of pubs = [t] \<and> tracking t \<and>
      fst (Solver_solve sample_env (solver_of sample_env stalled_node) t) = None \<and>
      gimbals_of pubs =
        [\<lparr>cmd_pitch = 0, cmd_yaw = 0, yaw_diff = 0, pitch_diff = 0, distance = - 1,
          fire_advice = False\<rparr>] \<and>
      last_time node' = 1500000000)"
proof -
  let ?msg = "sample_msg 1500000000 [sample_armor (Finite 1) (Finite (1 / 10)) (Finite 0)]"
  have surv: "survives sample_env ?msg stalled_node"
    by (simp add: sample_defs stalled_node_def callback_defs)
  obtain node' pubs where
    res: "armorsCallback sample_env ?msg stalled_node = Inr (node', pubs)"
    and tg: "map tracking (targets_of pubs) = [True]" "map radius_1 (targets_of pubs) = [0]"
    and pc: "map cmd_pitch (gimbals_of pubs) = [0]" "map cmd_yaw (gimbals_of pubs) = [0]"
    by (simp add: sample_defs stalled_node_def callback_defs Let_def)
  from gimbal_command[OF surv res] obtain t g where
    t: "targets_of pubs = [t]" and g: "gimbals_of pubs = [g]"
    and n: "\<not> tracking t \<or> fst (Solver_solve sample_env (solver_of sample_env stalled_node) t) = None \<longrightarrow>
              yaw_diff g = 0 \<and> pitch_diff g = 0 \<and> distance g = - 1 \<and> \<not> fire_advice g"
    and lt: "last_time node' = stamp (header ?msg)"
    by (elim exE conjE)
  from t tg have trk: "tracking t" and r: "radius_1 t = 0" by simp_all
  from r have thrown: "fst (Solver_solve sample_env (solver_of sample_env stalled_node) t) = None"
    by (simp add: sample_env_def sample_solve_def)
  with n g pc have "gimbals_of pubs =
        [\<lparr>cmd_pitch = 0, cmd_yaw = 0, yaw_diff = 0, pitch_diff = 0, distance = - 1,
          fire_advice = False\<rparr>]"
    by (cases g) simp
  moreover from lt have "last_time node' = 1500000000" by (simp add: sample_msg_def)
  ultimately show ?thesis using surv res t trk thrown by blast
qed

subsection \<open>Transform failure\<close>

text \<open>
  C4. If the transform throws for some armor of the frame, the callback returns at once:
  nothing is published, the tracker is the one from before the tick (neither
  \<^verbatim>\<open>init\<close> nor \<^verbatim>\<open>update\<close> has touched it), and \<^verbatim>\<open>last_time_\<close> and \<^verbatim>\<open>dt_\<close> keep
  their values. The only member that can differ is the solver, which the callback creates
  on its first run before it transforms anything.
\<close>

theorem transform_failure_drops_tick:
  assumes "\<exists>armor \<in> set (armors msg).
             tf2_transform env \<lparr>ps_header = header msg, ps_pose = pose armor\<rparr> (target_frame node) = None"
  shows "\<exists>node'. armorsCallback env msg node = Inr (node', []) \<and>
           node' = node\<lparr>solver := Some (solver_of env node)\<rparr> \<and>
           tracker node' = tracker node \<and> last_time node' = last_time node \<and> dt node' = dt node"
proof -
  from assms have "\<not> survives env msg node"
    by (simp add: survives_def transform_armors_None_iff)
  then show ?thesis by (simp add: armorsCallback_dropped)
qed

theorem transform_failure_drops_tick_witness:
  "tf2_transform sample_env
     \<lparr>ps_header = header (sample_msg 1500000000
                            [sample_armor (Finite 1) (Finite (1 / 10)) (Finite 0),
                             sample_armor NaN (Finite (1 / 10)) (Finite 0)]),
      ps_pose = pose (sample_armor NaN (Finite (1 / 10)) (Finite 0))\<rparr>
     (target_frame tracking_node) = None \<and>
   (\<exists>node'. armorsCallback sample_env
        (sample_msg 1500000000
           [sample_armor (Finite 1) (Finite (1 / 10)) (Finite 0),
            sample_armor NaN (Finite (1 / 10)) (Finite 0)])
        tracking_node = Inr (node', []) \<and>
      tracker node' = tracker tracking_node \<and> last_time node' = 1000000000)"
proof -
  let ?bad = "sample_armor NaN (Finite (1 / 10)) (Finite 0)"
  let ?msg = "sample_msg 1500000000 [sample_armor (Finite 1) (Finite (1 / 10)) (Finite 0), ?bad]"
  have thrown: "tf2_transform sample_env \<lparr>ps_header = header ?msg, ps_pose = pose ?bad\<rparr>
                  (target_frame tracking_node) = None"
    by (simp add: sample_defs tracking_node_def)
  have "?bad \<in> set (armors ?msg)" by (simp add: sample_msg_def)
  with thrown have "\<exists>armor \<in> set (armors ?msg).
      tf2_transform sample_env \<lparr>ps_header = header ?msg, ps_pose = pose armor\<rparr>
        (target_frame tracking_node) = None"
    by blast
  from transform_failure_drops_tick[OF this] obtain node' where
    "armorsCallback sample_env ?msg tracking_node = Inr (node', [])"
    "tracker node' = tracker tracking_node" "last_time node' = last_time tracking_node"
    by blast
  moreover have "last_time tracking_node = 1000000000" by (simp add: tracking_node_def)
  ultimately show ?thesis using thrown by auto
qed

subsection \<open>What the tracker receives\<close>

lemma gate_finite:
  "\<not> dgt (dabs v) (Finite 2) \<Longrightarrow> is_finite v \<Longrightarrow> dle (dabs v) (Finite 2)"
  by (cases v) simp_all

lemma armorsCallback_tracker:
  assumes as: "transform_armors env (header msg) (target_frame node) (armors msg) = Some as"
      and res: "armorsCallback env msg node = Inr (node', pubs)"
  shows "(tracker_state (tracker node) = LOST \<longrightarrow>
            tracker node' = Tracker_init env (tracker_input msg as) (tracker node)) \<and>
         (tracker_state (tracker node) \<noteq> LOST \<longrightarrow>
            dt node' = seconds (stamp (header msg) - last_time node) \<and>
            (\<exists>n. compute_lost_thres (lost_time_thres node) (dt node') = Inr n \<and>
                 tracker node' =
                   Tracker_update env (tracker_input msg as) ((tracker node)\<lparr>lost_thres := n\<rparr>)))"
proof -
  let ?node1 = "node\<lparr>solver := Some (solver_of env node)\<rparr>"
  from res obtain node2 t ps where
    upd: "update_tracker env (tracker_input msg as) (stamp (header msg)) (start_target msg node) ?node1
            = Inr (node2, t, ps)"
    and trk: "tracker node' = tracker node2" and d: "dt node' = dt node2"
    by (auto simp: armorsCallback_processed[OF as] split: sum.splits prod.splits if_splits)
  show ?thesis
  proof (cases "tracker_state (tracker node) = LOST")
    case True
    with upd trk show ?thesis by (auto simp: update_tracker_lost)
  next
    case False
    then have "tracker_state (tracker ?node1) \<noteq> LOST" by simp
    from update_tracker_not_lost[OF this upd] False trk d show ?thesis by auto
  qed
qed

text \<open>
  C5, as the code has it. On every processed tick the tracker is called once, with
  \<^verbatim>\<open>init\<close> or \<^verbatim>\<open>update\<close>, on the transformed batch from which exactly the armors with
  \<open>|z| > 2\<close> have been removed, the others in their order. So no armor the tracker sees
  has \<open>|z| > 2\<close>, and one whose \<open>z\<close> is finite has \<open>|z| \<le> 2\<close>. A \<open>z\<close> that is not a
  number passes the comparison, and nothing looks at the yaw: the claim as written,
  that every armor reaching the tracker has \<open>|z| \<le> 2\<close> and a finite yaw, does not hold
  (see the instance after the theorem).
\<close>

theorem tracker_sees_gated_batch:
  assumes as: "transform_armors env (header msg) (target_frame node) (armors msg) = Some as"
      and res: "armorsCallback env msg node = Inr (node', pubs)"
  shows "\<exists>seen. header seen = header msg \<and>
           armors seen = filter (\<lambda>a. \<not> dgt (dabs (pt_z (position (pose a)))) (Finite 2)) as \<and>
           (\<forall>a \<in> set (armors seen).
              \<not> dgt (dabs (pt_z (position (pose a)))) (Finite 2) \<and>
              (is_finite (pt_z (position (pose a))) \<longrightarrow>
                 dle (dabs (pt_z (position (pose a)))) (Finite 2))) \<and>
           (tracker_state (tracker node) = LOST \<longrightarrow>
              tracker node' = Tracker_init env seen (tracker node)) \<and>
           (tracker_state (tracker node) \<noteq> LOST \<longrightarrow>
              (\<exists>n. tracker node' = Tracker_update env seen ((tracker node)\<lparr>lost_thres := n\<rparr>)))"
proof -
  let ?seen = "tracker_input msg as"
  have 1: "header ?seen = header msg" by (simp add: tracker_input_def)
  have 2: "armors ?seen = filter (\<lambda>a. \<not> dgt (dabs (pt_z (position (pose a)))) (Finite 2)) as"
    by (simp add: tracker_input_def remove_abnormal_def abnormal_def)
  have 3: "\<forall>a \<in> set (armors ?seen).
              \<not> dgt (dabs (pt_z (position (pose a)))) (Finite 2) \<and>
              (is_finite (pt_z (position (pose a))) \<longrightarrow>
                 dle (dabs (pt_z (position (pose a)))) (Finite 2))"
    unfolding 2 by (auto intro: gate_finite)
  from armorsCallback_tracker[OF as res] have 4:
    "tracker_state (tracker node) = LOST \<longrightarrow> tracker node' = Tracker_init env ?seen (tracker node)"
    "tracker_state (tracker node) \<noteq> LOST \<longrightarrow>
       (\<exists>n. tracker node' = Tracker_update env ?seen ((tracker node)\<lparr>lost_thres := n\<rparr>))"
    by auto
  from 1 2 3 4 show ?thesis by (intro exI[of _ ?seen] conjI)
qed

theorem tracker_sees_gated_batch_witness:
  "transform_armors sample_env (header (sample_msg 1500000000 mixed_batch))
     (target_frame sample_node) (armors (sample_msg 1500000000 mixed_batch)) = Some mixed_batch \<and>
   tracker_state (tracker sample_node) = LOST \<and>
   (\<exists>node' pubs.
      armorsCallback sample_env (sample_msg 1500000000 mixed_batch) sample_node = Inr (node', pubs) \<and>
      tracker node' =
        Tracker_init sample_env
          (sample_msg 1500000000
             [sample_armor (Finite 1) (Finite (1 / 10)) (Finite 0),
              (sample_armor (Finite 3) NaN NaN)\<lparr>number := ''4''\<rparr>])
          (tracker sample_node))"
proof -
  let ?msg = "sample_msg 1500000000 mixed_batch"
  have as: "transform_armors sample_env (header ?msg) (target_frame sample_node) (armors ?msg)
              = Some mixed_batch"
    by (simp add: sample_defs mixed_batch_def)
  have lost: "tracker_state (tracker sample_node) = LOST"
    by (simp add: sample_defs mixed_batch_def)
  obtain node' pubs where
    res: "armorsCallback sample_env ?msg sample_node = Inr (node', pubs)"
    by (simp add: sample_defs mixed_batch_def callback_defs Let_def)
  from tracker_sees_gated_batch[OF as res] lost obtain seen where
    h: "header seen = header ?msg"
    and a: "armors seen = filter (\<lambda>a. \<not> dgt (dabs (pt_z (position (pose a)))) (Finite 2)) mixed_batch"
    and t: "tracker node' = Tracker_init sample_env seen (tracker sample_node)"
    by auto
  from h a have "seen = sample_msg 1500000000
             [sample_armor (Finite 1) (Finite (1 / 10)) (Finite 0),
              (sample_armor (Finite 3) NaN NaN)\<lparr>number := ''4''\<rparr>]"
    by (cases seen) (simp add: sample_msg_def mixed_batch_def sample_armor_def)
  with t as lost res show ?thesis by blast
qed

text \<open>
  An armor whose height and yaw are both NaN is not removed: the tracker is initialised
  on it and starts to detect.
\<close>

theorem unfiltered_observation_counterexample:
  "armorsCallback sample_env (sample_msg 1500000000 [sample_armor (Finite 1) NaN NaN]) sample_node =
     Inr (sample_node
            \<lparr>tracker := Tracker_init sample_env
                          (sample_msg 1500000000 [sample_armor (Finite 1) NaN NaN]) sample_tracker,
             last_time := 1500000000, solver := Some 0\<rparr>,
          [Target_pub
             (start_target (sample_msg 1500000000 [sample_armor (Finite 1) NaN NaN]) sample_node),
           Gimbal_pub neutral_cmd,
           PublishMarkers
             (start_target (sample_msg 1500000000 [sample_armor (Finite 1) NaN NaN]) sample_node)
             neutral_cmd]) \<and>
   tracker_state (Tracker_init sample_env
                    (sample_msg 1500000000 [sample_armor (Finite 1) NaN NaN]) sample_tracker)
     = DETECTING \<and>
   \<not> dle (dabs (pt_z (position (pose (sample_armor (Finite 1) NaN NaN))))) (Finite 2) \<and>
   \<not> is_finite (orientation_yaw (pose (sample_armor (Finite 1) NaN NaN)))"
  by (simp add: sample_defs callback_defs start_target_def Let_def)

subsection \<open>Frames that go back in time\<close>

text \<open>Rounding to a double keeps the sign, so a count of nanoseconds that is not positive
  gives a \<open>dt\<close> that is not positive.\<close>

lemma scale_nonneg:
  "0 \<le> v \<Longrightarrow> 0 \<le> scale v k"
  by (simp add: scale_def)

lemma rne_nonneg:
  "0 \<le> v \<Longrightarrow> 0 \<le> rne v"
  by (simp add: rne_def nearest_even_def)

lemma nearest_nonpos:
  assumes "v \<le> 0"
  shows "nearest v \<le> 0"
proof (cases "v = 0")
  case True
  then show ?thesis by (simp add: nearest_def)
next
  case False
  with assms have neg: "sgn v = - 1" by simp
  have "0 \<le> round_at (max (binade \<bar>v\<bar>) (- 1022)) \<bar>v\<bar>"
    unfolding round_at_def by (intro scale_nonneg) (simp add: rne_nonneg scale_nonneg)
  with False neg show ?thesis by (simp add: nearest_def)
qed

lemma seconds_nonpos:
  assumes "ns \<le> 0"
  shows "seconds ns \<le> 0"
proof -
  from assms have "nearest (real_of_int ns) \<le> 0"
    by (intro nearest_nonpos) simp
  then have "nearest (real_of_int ns) / 10 ^ 9 \<le> 0"
    by (simp add: divide_nonpos_pos)
  then show ?thesis
    unfolding seconds_def by (rule nearest_nonpos)
qed

lemma fdiv_finite_divisor:
  assumes "fdiv a b = Finite q"
  shows "b \<noteq> 0"
proof
  assume "b = 0"
  then have "nearest b = 0" by (simp add: nearest_def)
  with assms show False
    by (simp add: fdiv_def divide_doubles_def split: if_splits)
qed

lemma towards_zero_in_range:
  assumes "\<bar>q\<bar> < 2 ^ 31"
  shows "- (2 ^ 31) < towards_zero q \<and> towards_zero q < 2 ^ 31"
proof (cases "0 \<le> q")
  case True
  with assms have "\<lfloor>q\<rfloor> < 2 ^ 31" "0 \<le> \<lfloor>q\<rfloor>"
    by (simp_all add: floor_less_iff)
  with True show ?thesis by (simp add: towards_zero_def)
next
  case False
  with assms have "- (2 ^ 31) < \<lceil>q\<rceil>" "\<lceil>q\<rceil> \<le> 0"
    by (simp_all add: less_ceiling_iff ceiling_le_iff)
  with False show ?thesis by (simp add: towards_zero_def)
qed

lemma compute_lost_thres_finite:
  assumes "fdiv thres t = Finite q" and "\<bar>q\<bar> < 2 ^ 31"
  shows "compute_lost_thres thres t = Inr \<bar>towards_zero q\<bar>"
  using assms(1) towards_zero_in_range[OF assms(2)]
  by (simp add: compute_lost_thres_def std_abs_def)

text \<open>
  C6, as the code has it. The callback has no check on the sign of \<open>dt\<close>. A tick that
  starts outside \<open>LOST\<close>, survives the transform stage and carries a stamp not later than
  the previous processed frame is processed like any other, provided the double quotient
  \<open>q\<close> of \<^verbatim>\<open>lost_time_thres_\<close> by \<open>dt\<close> is finite (which rules out \<open>dt = 0\<close>) with
  \<open>|q| < 2^31\<close>, so that its conversion to \<^verbatim>\<open>int\<close> is defined, and the tracker's vectors
  have their sizes: \<^verbatim>\<open>dt_\<close> becomes the negative difference in seconds, the tracker is
  updated with \<^verbatim>\<open>lost_thres\<close> set to \<open>|q|\<close> truncated towards zero, one measurement, one
  target and one gimbal message are published, and \<^verbatim>\<open>last_time_\<close> moves back to the
  frame's stamp. The claim as written, that such a tick is dropped, does not hold (see
  the instance after the theorem).
\<close>

theorem backward_tick_is_processed:
  assumes st: "tracker_state (tracker node) \<noteq> LOST"
      and as: "transform_armors env (header msg) (target_frame node) (armors msg) = Some as"
      and older: "stamp (header msg) \<le> last_time node"
      and quot: "fdiv (lost_time_thres node) (seconds (stamp (header msg) - last_time node))
                   = Finite q"
      and range: "\<bar>q\<bar> < 2 ^ 31"
      and trk: "trk = Tracker_update env (tracker_input msg as)
                        ((tracker node)\<lparr>lost_thres := \<bar>towards_zero q\<bar>\<rparr>)"
      and len: "3 < length (measurement trk)" "8 < length (target_state trk)"
  shows "\<exists>node' pubs. armorsCallback env msg node = Inr (node', pubs) \<and>
           dt node' = seconds (stamp (header msg) - last_time node) \<and> dt node' < 0 \<and>
           tracker node' = trk \<and>
           length (measurements_of pubs) = 1 \<and> length (targets_of pubs) = 1 \<and>
           length (gimbals_of pubs) = 1 \<and>
           last_time node' = stamp (header msg)"
proof -
  let ?t = "seconds (stamp (header msg) - last_time node)"
  from fdiv_finite_divisor[OF quot] have "?t \<noteq> 0" .
  moreover from older have "?t \<le> 0"
    by (intro seconds_nonpos) simp
  ultimately have neg: "?t < 0" by simp
  have thres: "compute_lost_thres (lost_time_thres node) ?t = Inr \<bar>towards_zero q\<bar>"
    using quot range by (rule compute_lost_thres_finite)
  let ?node1 = "node\<lparr>solver := Some (solver_of env node)\<rparr>"
  have "\<exists>node2 t ps. update_tracker env (tracker_input msg as) (stamp (header msg))
                        (start_target msg node) ?node1 = Inr (node2, t, ps) \<and>
          node2 = ?node1\<lparr>dt := ?t, tracker := trk\<rparr> \<and>
          length (measurements_of ps) = 1 \<and> targets_of ps = [] \<and> gimbals_of ps = []"
    using st thres len unfolding trk
    by (simp add: update_tracker_def fill_target_def Let_def)
  then obtain node2 t ps where
    upd: "update_tracker env (tracker_input msg as) (stamp (header msg))
            (start_target msg node) ?node1 = Inr (node2, t, ps)"
    and node2: "node2 = ?node1\<lparr>dt := ?t, tracker := trk\<rparr>"
    and ps: "length (measurements_of ps) = 1" "targets_of ps = []" "gimbals_of ps = []"
    by blast
  show ?thesis
    using neg node2 ps
    by (simp add: armorsCallback_processed[OF as] upd)
qed

theorem backward_tick_is_processed_witness:
  "tracker_state (tracker detecting_node) \<noteq> LOST \<and>
   stamp (header (sample_msg 900000000 [sample_armor (Finite 1) (Finite (1 / 10)) (Finite 0)]))
     \<le> last_time detecting_node \<and>
   fdiv (lost_time_thres detecting_node)
     (seconds (stamp (header (sample_msg 900000000
                                [sample_armor (Finite 1) (Finite (1 / 10)) (Finite 0)]))
               - last_time detecting_node))
     = Finite (- (6755399441055743 / 2251799813685248)) \<and>
   \<bar>towards_zero (- (6755399441055743 / 2251799813685248))\<bar> = 2 \<and>
   (\<exists>node' pubs.
      armorsCallback sample_env
        (sample_msg 900000000 [sample_armor (Finite 1) (Finite (1 / 10)) (Finite 0)])
        detecting_node
        = Inr (node', pubs) \<and>
      dt node' = - (3602879701896397 / 36028797018963968) \<and>
      lost_thres (tracker node') = 2 \<and> internals (tracker node') = 1 \<and>
      length (measurements_of pubs) = 1 \<and> length (targets_of pubs) = 1 \<and>
      length (gimbals_of pubs) = 1 \<and> last_time node' = 900000000)"
proof -
  let ?a = "sample_armor (Finite 1) (Finite (1 / 10)) (Finite 0)"
  let ?msg = "sample_msg 900000000 [?a]"
  let ?q = "- (6755399441055743 / 2251799813685248) :: real"
  let ?trk = "Tracker_update sample_env (tracker_input ?msg [?a])
                ((tracker detecting_node)\<lparr>lost_thres := \<bar>towards_zero ?q\<bar>\<rparr>)"
  have st: "tracker_state (tracker detecting_node) \<noteq> LOST"
    by (simp add: sample_defs detecting_node_def)
  have as: "transform_armors sample_env (header ?msg) (target_frame detecting_node) (armors ?msg)
              = Some [?a]"
    by (simp add: sample_defs detecting_node_def)
  have older: "stamp (header ?msg) \<le> last_time detecting_node"
    by (simp add: sample_defs detecting_node_def)
  have t: "seconds (stamp (header ?msg) - last_time detecting_node)
             = - (3602879701896397 / 36028797018963968)"
    by (simp add: sample_defs detecting_node_def seconds_samples)
  have quot: "fdiv (lost_time_thres detecting_node)
                (seconds (stamp (header ?msg) - last_time detecting_node)) = Finite ?q"
    unfolding t by (simp add: sample_defs detecting_node_def quotient_samples)
  have tr: "\<bar>towards_zero ?q\<bar> = 2"
    by (simp add: towards_zero_def)
  have range: "\<bar>?q\<bar> < 2 ^ 31"
    by simp
  have len: "3 < length (measurement ?trk)" "8 < length (target_state ?trk)"
    by (simp_all add: sample_defs detecting_node_def tracker_input_def remove_abnormal_def
          abnormal_def)
  have trk: "lost_thres ?trk = 2" "internals ?trk = 1"
    unfolding tr
    by (simp_all add: sample_defs detecting_node_def tracker_input_def remove_abnormal_def
          abnormal_def)
  from backward_tick_is_processed[OF st as older quot range refl len] trk t
  have "\<exists>node' pubs.
      armorsCallback sample_env ?msg detecting_node = Inr (node', pubs) \<and>
      dt node' = - (3602879701896397 / 36028797018963968) \<and>
      lost_thres (tracker node') = 2 \<and> internals (tracker node') = 1 \<and>
      length (measurements_of pubs) = 1 \<and> length (targets_of pubs) = 1 \<and>
      length (gimbals_of pubs) = 1 \<and> last_time node' = 900000000"
    by (auto simp: sample_msg_def)
  with st older quot tr show ?thesis by blast
qed

text \<open>
  A frame stamped one second before the previous one reaches a detecting tracker:
  the tracker is updated and all three messages go out.
\<close>

theorem backward_tick_counterexample:
  "tracker_state (tracker detecting_node) \<noteq> LOST \<and>
   stamp (header (sample_msg 0 [sample_armor (Finite 1) (Finite (1 / 10)) (Finite 0)]))
     \<le> last_time detecting_node \<and>
   armorsCallback sample_env
     (sample_msg 0 [sample_armor (Finite 1) (Finite (1 / 10)) (Finite 0)]) detecting_node =
     Inr (detecting_node
            \<lparr>tracker := (tracker detecting_node)\<lparr>lost_thres := 0, internals := 1\<rparr>,
             dt := - 1, last_time := 0, solver := Some 0\<rparr>,
          [Measure_pub \<lparr>m_x = 3 / 4, m_y = 2, m_z = 3, m_yaw = 0\<rparr>,
           Target_pub
             (start_target (sample_msg 0 [sample_armor (Finite 1) (Finite (1 / 10)) (Finite 0)])
                detecting_node),
           Gimbal_pub neutral_cmd,
           PublishMarkers
             (start_target (sample_msg 0 [sample_armor (Finite 1) (Finite (1 / 10)) (Finite 0)])
                detecting_node)
             neutral_cmd]) \<and>
   (tracker detecting_node)\<lparr>lost_thres := 0, internals := 1\<rparr> \<noteq> tracker detecting_node"
  by (simp add: sample_defs detecting_node_def callback_defs start_target_def Let_def)

subsection \<open>The time of the last processed frame\<close>

lemma update_tracker_frame:
  assumes "update_tracker env m time t node = Inr (node2, t2, ps)"
  shows "target_frame node2 = target_frame node \<and> last_time node2 = last_time node"
proof (cases "tracker_state (tracker node) = LOST")
  case True
  with assms show ?thesis by (auto simp: update_tracker_lost)
next
  case False
  from update_tracker_not_lost[OF this assms] show ?thesis by auto
qed

lemma armorsCallback_last_time:
  assumes res: "armorsCallback env msg node = Inr (node', pubs)"
  shows "target_frame node' = target_frame node \<and>
         last_time node' = (if survives env msg node then stamp (header msg) else last_time node)"
proof (cases "survives env msg node")
  case False
  with res show ?thesis by (auto simp: armorsCallback_dropped)
next
  case True
  then obtain as where
    as: "transform_armors env (header msg) (target_frame node) (armors msg) = Some as"
    by (auto simp: survives_def)
  from res obtain node2 t ps where
    upd: "update_tracker env (tracker_input msg as) (stamp (header msg)) (start_target msg node)
            (node\<lparr>solver := Some (solver_of env node)\<rparr>) = Inr (node2, t, ps)"
    and n: "target_frame node' = target_frame node2" "last_time node' = stamp (header msg)"
    by (auto simp: armorsCallback_processed[OF as] split: sum.splits prod.splits if_splits)
  from update_tracker_frame[OF upd] n True show ?thesis by simp
qed

lemma run_ticks_last_time:
  "run_ticks ticks node = Inr (node1, pubs1) \<Longrightarrow>
     target_frame node1 = target_frame node \<and>
     last_time node1 = latest_stamp (target_frame node) ticks (last_time node)"
proof (induction ticks arbitrary: node pubs1)
  case Nil
  then show ?case by simp
next
  case (Cons tick ticks)
  obtain env msg where tick: "tick = (env, msg)" by (cases tick)
  from Cons.prems tick obtain node' pubs pubs' where
    cb: "armorsCallback env msg node = Inr (node', pubs)"
    and rest: "run_ticks ticks node' = Inr (node1, pubs')"
    by (auto split: sum.splits prod.splits)
  from armorsCallback_last_time[OF cb] Cons.IH[OF rest] tick show ?case
    by (simp add: survives_def)
qed

lemma latest_stamp_dropped:
  "\<forall>(e, m) \<in> set dropped. transform_armors e (header m) frame (armors m) = None \<Longrightarrow>
     latest_stamp frame dropped t0 = t0"
  by (induction dropped arbitrary: t0) auto

lemma latest_stamp_append:
  "latest_stamp frame (xs @ ys) t0 = latest_stamp frame ys (latest_stamp frame xs t0)"
  by (induction xs arbitrary: t0) auto

text \<open>
  C10. A tick that survives the transform stage ends with \<^verbatim>\<open>last_time_\<close> set to its
  frame's stamp, whatever the state of the tracker; a tick that is dropped leaves
  \<^verbatim>\<open>last_time_\<close> as it was. Hence after any stream of frames \<^verbatim>\<open>last_time_\<close> is the stamp
  of the most recent frame that was not dropped, the \<open>dt\<close> of a tick that starts outside
  \<open>LOST\<close> is the difference between its stamp and that one (dropped frames in between
  widen it), and after a surviving frame followed by dropped frames only, as on the
  first update after an init, \<^verbatim>\<open>last_time_\<close> is that frame's stamp.
\<close>

theorem last_time_follows_surviving_frames:
  assumes run: "run_ticks ticks node = Inr (node1, pubs1)"
      and res: "armorsCallback env msg node1 = Inr (node2, pubs2)"
  shows "last_time node1 = latest_stamp (target_frame node) ticks (last_time node) \<and>
         (survives env msg node1 \<longrightarrow> last_time node2 = stamp (header msg)) \<and>
         (\<not> survives env msg node1 \<longrightarrow> last_time node2 = last_time node1) \<and>
         (survives env msg node1 \<and> tracker_state (tracker node1) \<noteq> LOST \<longrightarrow>
            dt node2 = seconds (stamp (header msg) -
                                latest_stamp (target_frame node) ticks (last_time node))) \<and>
         (\<forall>before env0 msg0 dropped.
            ticks = before @ (env0, msg0) # dropped \<and> survives env0 msg0 node \<and>
            (\<forall>(e, m) \<in> set dropped. \<not> survives e m node) \<longrightarrow>
            last_time node1 = stamp (header msg0))"
proof -
  from run_ticks_last_time[OF run] have
    lt: "last_time node1 = latest_stamp (target_frame node) ticks (last_time node)"
    by simp
  from armorsCallback_last_time[OF res] have
    1: "survives env msg node1 \<longrightarrow> last_time node2 = stamp (header msg)"
    and 2: "\<not> survives env msg node1 \<longrightarrow> last_time node2 = last_time node1"
    by simp_all
  have 3: "dt node2 = seconds (stamp (header msg) -
                                latest_stamp (target_frame node) ticks (last_time node))"
    if s: "survives env msg node1" and st: "tracker_state (tracker node1) \<noteq> LOST"
  proof -
    from s obtain as where
      as: "transform_armors env (header msg) (target_frame node1) (armors msg) = Some as"
      by (auto simp: survives_def)
    from armorsCallback_tracker[OF as res] st lt show ?thesis by simp
  qed
  have 4: "last_time node1 = stamp (header msg0)"
    if "ticks = before @ (env0, msg0) # dropped" and "survives env0 msg0 node"
      and "\<forall>(e, m) \<in> set dropped. \<not> survives e m node"
    for before env0 msg0 dropped
    using that lt
    by (auto simp add: latest_stamp_append latest_stamp_dropped survives_def)
  from lt 1 2 3 4 show ?thesis by blast
qed

theorem last_time_follows_surviving_frames_witness:
  "\<exists>node1 pubs1 node2 pubs2.
     run_ticks sample_stream sample_node = Inr (node1, pubs1) \<and>
     armorsCallback sample_env
       (sample_msg 1500000000 [sample_armor (Finite 1) (Finite (1 / 10)) (Finite 0)]) node1
       = Inr (node2, pubs2) \<and>
     survives sample_env
       (sample_msg 1500000000 [sample_armor (Finite 1) (Finite (1 / 10)) (Finite 0)]) node1 \<and>
     tracker_state (tracker node1) = DETECTING \<and>
     last_time node1 = 1000000000 \<and> last_time node2 = 1500000000 \<and> dt node2 = 1 / 2"
proof -
  let ?a = "sample_armor (Finite 1) (Finite (1 / 10)) (Finite 0)"
  let ?msg = "sample_msg 1500000000 [?a]"
  let ?node1 = "detecting_node\<lparr>solver := Some 0\<rparr>"
  have first: "armorsCallback sample_env (sample_msg 1000000000 [?a]) sample_node =
                 Inr (?node1, [Target_pub (start_target (sample_msg 1000000000 [?a]) sample_node),
                               Gimbal_pub neutral_cmd,
                               PublishMarkers (start_target (sample_msg 1000000000 [?a]) sample_node)
                                 neutral_cmd])"
    by (simp add: sample_defs detecting_node_def callback_defs start_target_def Let_def)
  have second: "armorsCallback sample_env
                  (sample_msg 1200000000 [sample_armor NaN (Finite (1 / 10)) (Finite 0)]) ?node1 =
                 Inr (?node1, [])"
    by (simp add: sample_defs detecting_node_def callback_defs Let_def)
  obtain pubs1 where run: "run_ticks sample_stream sample_node = Inr (?node1, pubs1)"
    by (simp add: sample_stream_def first second)
  obtain node2 pubs2 where res: "armorsCallback sample_env ?msg ?node1 = Inr (node2, pubs2)"
    by (simp add: sample_defs detecting_node_def callback_defs Let_def)
  have surv: "survives sample_env ?msg ?node1"
    by (simp add: sample_defs detecting_node_def callback_defs)
  have st: "tracker_state (tracker ?node1) = DETECTING"
    by (simp add: sample_defs detecting_node_def)
  have latest: "latest_stamp (target_frame sample_node) sample_stream (last_time sample_node)
                  = 1000000000"
    by (simp add: sample_stream_def sample_defs)
  from last_time_follows_surviving_frames[OF run res] surv st latest
  have "last_time ?node1 = 1000000000" "last_time node2 = 1500000000" "dt node2 = 1 / 2"
    by (simp_all add: sample_msg_def seconds_samples)
  with run res surv st show ?thesis by blast
qed

end
